theory Spec2Isabelle
  imports Main "HOL-Library.Sublist"
begin

section \<open>Python values used by the two workflows\<close>

text \<open>
  Python \<open>str\<close> values are modelled as \<^typ>\<open>string\<close>, read as the UTF-8 encoding of
  the text: the emoji of the message templates are written as their bytes. Substring
  tests, \<open>split\<close> and \<open>replace\<close> with ASCII arguments give the same result on the
  encoding as on the code points.
\<close>

datatype error = ValueError string | IndexError

datatype message =
    HumanMessage (content: string)
  | AIMessage (content: string)
  | ToolMessage (content: string)
  | SystemMessage (content: string)

text \<open>\<open>sub in s\<close>\<close>

fun str_in :: "string \<Rightarrow> string \<Rightarrow> bool" where
  "str_in sub [] = (sub = [])"
| "str_in sub (c # cs) = (prefix sub (c # cs) \<or> str_in sub cs)"

text \<open>
  \<open>s.split(sep, maxsplit)\<close> for a non-empty separator: the leftmost occurrences
  of \<open>sep\<close> are cut out, at most \<open>maxsplit\<close> of them.
\<close>

fun partition_at :: "string \<Rightarrow> string \<Rightarrow> (string \<times> string) option" where
  "partition_at sep [] = None"
| "partition_at sep (c # cs) =
     (if prefix sep (c # cs) then Some ([], drop (length sep) (c # cs))
      else (case partition_at sep cs of
              None \<Rightarrow> None
            | Some (before, rest) \<Rightarrow> Some (c # before, rest)))"

fun str_split :: "string \<Rightarrow> nat \<Rightarrow> string \<Rightarrow> string list" where
  "str_split sep 0 s = [s]"
| "str_split sep (Suc n) s =
     (case partition_at sep s of
        None \<Rightarrow> [s]
      | Some (before, rest) \<Rightarrow> before # str_split sep n rest)"

text \<open>\<open>s.replace(old, new)\<close> for single characters\<close>

definition str_replace :: "char \<Rightarrow> char \<Rightarrow> string \<Rightarrow> string" where
  "str_replace old new s = map (\<lambda>c. if c = old then new else c) s"

text \<open>\<open>str(n)\<close> for an \<open>int\<close>, as an f-string formats it\<close>

fun digits :: "nat \<Rightarrow> string" where
  "digits n =
     (if n < 10 then [char_of (48 + n)]
      else digits (n div 10) @ [char_of (48 + n mod 10)])"

declare digits.simps [simp del]

definition str_of_int :: "int \<Rightarrow> string" where
  "str_of_int i = (if i < 0 then ''-'' @ digits (nat (- i)) else digits (nat i))"

text \<open>\<open>xs[i]\<close>: a negative index counts from the end, an index out of range raises.\<close>

definition py_index :: "'a list \<Rightarrow> int \<Rightarrow> error + 'a" where
  "py_index xs i =
     (if 0 \<le> i \<and> i < int (length xs) then Inr (xs ! nat i)
      else if - int (length xs) \<le> i \<and> i < 0 then Inr (xs ! nat (int (length xs) + i))
      else Inl IndexError)"

text \<open>
  \<open>str.lower\<close>, \<open>str.strip\<close> and \<open>str.title\<close> follow the Unicode character
  database, which is no part of this repository: the functions that call them take them
  as a parameter, so every theorem holds for whatever these three methods compute.
\<close>

record str_methods =
  str_lower :: "string \<Rightarrow> string"
  str_strip :: "string \<Rightarrow> string"
  str_title :: "string \<Rightarrow> string"

section \<open>The LLM abstraction\<close>

text \<open>
  \<open>os.environ\<close> is a map from names to values. \<open>get_llm\<close> raises when the
  credential is unset or empty, and builds the client otherwise. A call
  \<open>llm.invoke(messages)\<close> is the opaque operation "complete(messages) \<rightarrow> text":
  the answer is a parameter of the model, and every node returns, next to its
  result, the list of the calls it issued.
\<close>

type_synonym environ = "string \<Rightarrow> string option"

datatype chat_model = ChatOpenAI (model: string) (temperature: int)

type_synonym completion = "chat_model \<Rightarrow> message list \<Rightarrow> string"

type_synonym llm_call = "message list"

definition get_llm :: "environ \<Rightarrow> error + chat_model" where
  "get_llm env =
     (case env ''OPENAI_API_KEY'' of
        None \<Rightarrow> Inl (ValueError ''Please set OPENAI_API_KEY environment variable'')
      | Some api_key \<Rightarrow>
          if api_key = [] then Inl (ValueError ''Please set OPENAI_API_KEY environment variable'')
          else Inr (ChatOpenAI ''gpt-4o-mini'' 0))"


section \<open>State records\<close>

text \<open>
  The state of a graph is a dictionary. \<open>messages\<close> is always present; every
  other key may be absent, and is read with \<open>state.get(key, default)\<close>. The
  dictionary a node returns has the same shape: \<open>{"messages": ms, "step_count": n}\<close>
  is the record whose \<open>current_problem\<close> is \<open>None\<close>.
\<close>

record messages_state =
  messages :: "message list"

record reasoning_state = messages_state +
  current_problem :: "string option"
  step_count :: "int option"

record support_state = messages_state +
  active_agent :: "string option"
  ticket_category :: "string option"
  customer_id :: "string option"
  next_agent :: "string option"

text \<open>\<open>state.get("current_problem", "")\<close> and \<open>state.get("step_count", 0)\<close>\<close>

definition get_current_problem :: "reasoning_state \<Rightarrow> string" where
  "get_current_problem state = (case current_problem state of None \<Rightarrow> [] | Some p \<Rightarrow> p)"

definition get_step_count :: "reasoning_state \<Rightarrow> int" where
  "get_step_count state = (case step_count state of None \<Rightarrow> 0 | Some n \<Rightarrow> n)"

section \<open>The reasoning workflow\<close>

subsection \<open>Flow router\<close>

definition route_reasoning_flow :: "reasoning_state \<Rightarrow> string" where
  "route_reasoning_flow state =
     (let step_count = get_step_count state
      in if step_count < 4 then ''step_reasoner''
         else if step_count \<ge> 4 then ''conclusion''
         else ''end'')"

subsection \<open>Reasoning coordinator\<close>

definition coordinator_greeting :: string where
  "coordinator_greeting =
     ''Hello! I'm your Chain of Thought Reasoning Agent. I'll help you think through problems step by step. What would you like me to analyze?''"

definition reasoning_prompt :: "string \<Rightarrow> string" where
  \<open>reasoning_prompt problem =
     [CHR 0xF0, CHR 0x9F, CHR 0xA7, CHR 0xA0] @
     '' **Starting Chain of Thought Analysis**\<newline>'' @
     ''\<newline>'' @
     ''I need to think through this problem step by step: "'' @
     problem @
     ''"\<newline>'' @
     ''\<newline>'' @
     ''Let me break this down systematically using a structured reasoning approach.''\<close>

definition reasoning_coordinator :: "reasoning_state \<Rightarrow> reasoning_state" where
  "reasoning_coordinator state =
     (if messages state = [] then
        \<lparr>messages = [AIMessage coordinator_greeting],
         current_problem = None, step_count = None\<rparr>
      else
        (case last (messages state) of
           HumanMessage text \<Rightarrow>
             \<lparr>messages = messages state @ [AIMessage (reasoning_prompt text)],
              current_problem = Some text,
              step_count = Some 0\<rparr>
         | _ \<Rightarrow> state))"

subsection \<open>Step-by-step reasoner\<close>

record step_prompt =
  title :: string
  prompt :: string

definition step_prompts :: "string \<Rightarrow> step_prompt list" where
  \<open>step_prompts problem =
     [\<lparr>title = ''Problem Analysis'',
       prompt =
         ''Analyze this problem: "'' @ problem @ ''"\<newline>'' @
         ''\<newline>'' @
         ''Break down the problem into its key components:\<newline>'' @
         ''1. What is the core issue?\<newline>'' @
         ''2. What are the main factors involved?\<newline>'' @
         ''3. What context is important to consider?\<newline>'' @
         ''\<newline>'' @
         ''Provide a clear analysis of what we're dealing with.''\<rparr>,
      \<lparr>title = ''Information Gathering'',
       prompt =
         ''Based on the problem: "'' @ problem @ ''"\<newline>'' @
         ''\<newline>'' @
         ''What information do we need to make a good decision? Consider:\<newline>'' @
         ''1. What facts are relevant?\<newline>'' @
         ''2. What assumptions might we be making?\<newline>'' @
         ''3. What additional context would be helpful?\<newline>'' @
         ''4. What are the key constraints or requirements?\<newline>'' @
         ''\<newline>'' @
         ''Identify the most important information needed.''\<rparr>,
      \<lparr>title = ''Option Generation'',
       prompt =
         ''For the problem: "'' @ problem @ ''"\<newline>'' @
         ''\<newline>'' @
         ''Generate potential approaches or solutions:\<newline>'' @
         ''1. What are the different ways to address this?\<newline>'' @
         ''2. What are the main options available?\<newline>'' @
         ''3. Are there any creative or alternative approaches?\<newline>'' @
         ''4. What would be the conventional wisdom?\<newline>'' @
         ''\<newline>'' @
         ''List and briefly describe the main options.''\<rparr>,
      \<lparr>title = ''Evaluation & Decision'',
       prompt =
         ''Evaluate the options for: "'' @ problem @ ''"\<newline>'' @
         ''\<newline>'' @
         ''Analyze each approach considering:\<newline>'' @
         ''1. Pros and cons of each option\<newline>'' @
         ''2. Feasibility and practicality\<newline>'' @
         ''3. Potential risks and benefits\<newline>'' @
         ''4. Resource requirements\<newline>'' @
         ''5. Likelihood of success\<newline>'' @
         ''\<newline>'' @
         ''Make a reasoned recommendation based on this analysis.''\<rparr>]\<close>

definition need_problem_text :: string where
  "need_problem_text =
     ''I need a problem to analyze. Please provide a question or issue you'd like me to think through.''"

definition reasoner_system_text :: string where
  "reasoner_system_text =
     ''You are a logical reasoning expert. Provide clear, structured thinking for each step.''"

definition step_message :: "int \<Rightarrow> string \<Rightarrow> string \<Rightarrow> string" where
  "step_message n step_title response =
     [CHR 0xF0, CHR 0x9F, CHR 0x94, CHR 0x8D] @
     '' **Step '' @ str_of_int n @ '': '' @ step_title @ ''**\<newline>'' @
     ''\<newline>'' @
     response"

definition step_by_step_reasoner ::
  "environ \<Rightarrow> completion \<Rightarrow> reasoning_state \<Rightarrow> error + reasoning_state \<times> llm_call list"
where
  "step_by_step_reasoner env complete state =
     (case get_llm env of
        Inl e \<Rightarrow> Inl e
      | Inr llm \<Rightarrow>
          let problem = get_current_problem state;
              n = get_step_count state
          in if problem = [] then
               Inr (\<lparr>messages = messages state @ [AIMessage need_problem_text],
                     current_problem = None,
                     step_count = Some n\<rparr>, [])
             else if n < int (length (step_prompts problem)) then
               (case py_index (step_prompts problem) n of
                  Inl e \<Rightarrow> Inl e
                | Inr current_step \<Rightarrow>
                    let call = [SystemMessage reasoner_system_text,
                                HumanMessage (prompt current_step)];
                        response = complete llm call
                    in Inr (\<lparr>messages = messages state @
                                [AIMessage (step_message (n + 1) (title current_step) response)],
                             current_problem = Some problem,
                             step_count = Some (n + 1)\<rparr>, [call]))
             else Inr (state, []))"

subsection \<open>Conclusion synthesizer\<close>

text \<open>
  The loop over the history: a message counts as a step when it is an assistant
  message that contains \<open>Step\<close>, \<open>:\<close> and \<open>**\<close> and that \<open>split("**", 2)\<close> cuts
  into three parts; the third part, stripped, is the step's text.
\<close>

fun extract_reasoning_steps :: "str_methods \<Rightarrow> message list \<Rightarrow> string list \<Rightarrow> string list" where
  "extract_reasoning_steps U [] reasoning_steps = reasoning_steps"
| "extract_reasoning_steps U (msg # msgs) reasoning_steps =
     extract_reasoning_steps U msgs
       (case msg of
          AIMessage text \<Rightarrow>
            if str_in ''Step'' text \<and> str_in '':'' text then
              if str_in ''**'' text then
                (let parts = str_split ''**'' 2 text
                 in if length parts > 2 then reasoning_steps @ [str_strip U (parts ! 2)]
                    else reasoning_steps)
              else reasoning_steps
            else reasoning_steps
        | _ \<Rightarrow> reasoning_steps)"

definition need_more_steps_text :: string where
  "need_more_steps_text = ''I need more reasoning steps before I can provide a conclusion.''"

definition synthesizer_system_text :: string where
  "synthesizer_system_text =
     ''You are an expert at synthesizing logical reasoning into clear, actionable conclusions.''"

definition step_or_not_completed :: "string list \<Rightarrow> nat \<Rightarrow> string" where
  "step_or_not_completed reasoning_steps i =
     (if length reasoning_steps > i then reasoning_steps ! i else ''Not completed'')"

definition synthesis_prompt :: "string \<Rightarrow> string list \<Rightarrow> string" where
  \<open>synthesis_prompt problem reasoning_steps =
     ''Based on the step-by-step analysis of: "'' @ problem @ ''"\<newline>'' @
     ''\<newline>'' @
     ''Here are the reasoning steps taken:\<newline>'' @
     ''1. Problem Analysis: '' @ step_or_not_completed reasoning_steps 0 @ ''\<newline>'' @
     ''2. Information Gathering: '' @ step_or_not_completed reasoning_steps 1 @ ''\<newline>'' @
     ''3. Option Generation: '' @ step_or_not_completed reasoning_steps 2 @ ''\<newline>'' @
     ''4. Evaluation & Decision: '' @ step_or_not_completed reasoning_steps 3 @ ''\<newline>'' @
     ''\<newline>'' @
     ''Provide a clear, actionable conclusion that:\<newline>'' @
     ''1. Summarizes the key insights from the analysis\<newline>'' @
     ''2. Gives a specific recommendation or answer\<newline>'' @
     ''3. Explains the reasoning behind the recommendation\<newline>'' @
     ''4. Acknowledges any limitations or assumptions\<newline>'' @
     ''5. Suggests next steps if applicable\<newline>'' @
     ''\<newline>'' @
     ''Make this practical and actionable.''\<close>

definition conclusion_text :: "string \<Rightarrow> string" where
  "conclusion_text response =
     [CHR 0xF0, CHR 0x9F, CHR 0x8E, CHR 0xAF] @
     '' **Final Conclusion & Recommendation**\<newline>'' @
     ''\<newline>'' @
     response @ ''\<newline>'' @
     ''\<newline>'' @
     ''---\<newline>'' @
     ''\<newline>'' @
     ''**Reasoning Process Summary:**\<newline>'' @
     [CHR 0xE2, CHR 0x9C, CHR 0x85] @
     '' **Step 1: Problem Analysis** - Identified core issues and key factors\<newline>'' @
     [CHR 0xE2, CHR 0x9C, CHR 0x85] @
     '' **Step 2: Information Gathering** - Determined what information is needed\<newline>'' @
     [CHR 0xE2, CHR 0x9C, CHR 0x85] @
     '' **Step 3: Option Generation** - Explored different approaches and solutions\<newline>'' @
     [CHR 0xE2, CHR 0x9C, CHR 0x85] @
     '' **Step 4: Evaluation & Decision** - Analyzed pros/cons and made recommendations\<newline>'' @
     ''\<newline>'' @
     ''This systematic approach ensures thorough consideration of all aspects of your question.''"

definition conclusion_synthesizer ::
  "str_methods \<Rightarrow> environ \<Rightarrow> completion \<Rightarrow> reasoning_state
     \<Rightarrow> error + reasoning_state \<times> llm_call list"
where
  "conclusion_synthesizer U env complete state =
     (case get_llm env of
        Inl e \<Rightarrow> Inl e
      | Inr llm \<Rightarrow>
          let problem = get_current_problem state;
              reasoning_steps = extract_reasoning_steps U (messages state) []
          in if length reasoning_steps < 3 then
               Inr (\<lparr>messages = messages state @ [AIMessage need_more_steps_text],
                     current_problem = None,
                     step_count = Some (get_step_count state)\<rparr>, [])
             else
               let call = [SystemMessage synthesizer_system_text,
                           HumanMessage (synthesis_prompt problem reasoning_steps)];
                   response = complete llm call
               in Inr (\<lparr>messages = messages state @ [AIMessage (conclusion_text response)],
                        current_problem = Some problem,
                        step_count = Some (get_step_count state)\<rparr>, [call]))"

subsection \<open>States of a run\<close>

text \<open>
  The counter of the reasoning state ranges over \<open>0..4\<close>, and no step is taken
  while no problem statement is set: the coordinator hands such a state to the
  reasoner, and the reasoner returns such a state again.
\<close>

definition run_state :: "reasoning_state \<Rightarrow> bool" where
  "run_state state =
     (0 \<le> get_step_count state \<and> get_step_count state \<le> 4
      \<and> (get_current_problem state = [] \<longrightarrow> get_step_count state = 0))"

section \<open>The support workflow\<close>

subsection \<open>Supervisor\<close>

definition supervisor_greeting :: string where
  "supervisor_greeting = ''Hello! How can I help you today?''"

text \<open>
  The loop that recovers the active specialist, over \<open>reversed(messages[:-1])\<close>:
  it stops at the first assistant message that announces a handoff, whether or not
  that message names one of the three specialists.
\<close>

definition is_routing_message :: "str_methods \<Rightarrow> message \<Rightarrow> bool" where
  "is_routing_message U msg =
     (case msg of
        AIMessage text \<Rightarrow> str_in ''routing your request to our'' (str_lower U text)
      | _ \<Rightarrow> False)"

fun scan_active_agent :: "str_methods \<Rightarrow> message list \<Rightarrow> string option" where
  "scan_active_agent U [] = None"
| "scan_active_agent U (msg # msgs) =
     (if is_routing_message U msg then
        (if str_in ''technical agent'' (str_lower U (content msg)) then Some ''technical_agent''
         else if str_in ''billing agent'' (str_lower U (content msg)) then Some ''billing_agent''
         else if str_in ''general agent'' (str_lower U (content msg)) then Some ''general_agent''
         else None)
      else scan_active_agent U msgs)"

definition current_active_agent :: "str_methods \<Rightarrow> message list \<Rightarrow> string option" where
  "current_active_agent U msgs = scan_active_agent U (rev (butlast msgs))"

definition billing_keywords :: "string list" where
  "billing_keywords =
     [''billing'', ''payment'', ''refund'', ''charge'', ''invoice'', ''account balance'']"

definition technical_keywords :: "string list" where
  "technical_keywords =
     [''password'', ''login'', ''technical'', ''api'', ''connection'', ''error'', ''bug'',
      ''down'', ''not working'']"

definition general_keywords :: "string list" where
  "general_keywords = [''plan'', ''upgrade'', ''downgrade'', ''account settings'', ''general'']"

text \<open>\<open>any(keyword in user_content for keyword in keywords)\<close>\<close>

definition any_keyword_in :: "string list \<Rightarrow> string \<Rightarrow> bool" where
  "any_keyword_in keywords user_content = list_ex (\<lambda>keyword. str_in keyword user_content) keywords"

text \<open>The context block of the routing prompt, from \<open>messages[-3:][:-1]\<close>\<close>

definition conversation_context :: "message list \<Rightarrow> string" where
  "conversation_context msgs =
     (if length msgs > 1 then
        (let recent_messages = drop (length msgs - 3) msgs
         in foldl (\<lambda>context msg.
                     case msg of
                       HumanMessage text \<Rightarrow> context @ ''User: '' @ text @ ''\<newline>''
                     | AIMessage text \<Rightarrow> context @ ''Assistant: '' @ text @ ''\<newline>''
                     | _ \<Rightarrow> context)
              (''\<newline>'' @ ''Recent conversation context:\<newline>'')
              (butlast recent_messages))
      else [])"

definition routing_prompt :: "string \<Rightarrow> string \<Rightarrow> string" where
  \<open>routing_prompt customer_message context =
     ''\<newline>'' @
     ''    You are a customer support supervisor. Analyze the following customer message and determine which specialist should handle it:\<newline>'' @
     ''\<newline>'' @
     ''    Customer message: "'' @ customer_message @ ''"\<newline>'' @
     ''    '' @ context @ ''\<newline>'' @
     ''\<newline>'' @
     ''    Available specialists:\<newline>'' @
     ''    1. technical_agent - For technical issues, password resets, connectivity problems, API issues, service outages\<newline>'' @
     ''    2. billing_agent - For billing inquiries, payments, refunds, account status, charges, current account balance, payment history\<newline>'' @
     ''    3. general_agent - For general questions, service plans, account management\<newline>'' @
     ''\<newline>'' @
     ''    Respond with ONLY the agent name (technical_agent, billing_agent, or general_agent) and a brief reason.\<newline>'' @
     ''    Format: agent_name|reason\<newline>'' @
     ''    ''\<close>

text \<open>
  The \<open>try\<close> block: unpacking \<open>response.content.split("|", 1)\<close> into two names
  raises unless the split has exactly two parts, and the bare \<open>except\<close> then sets
  the defaults.
\<close>

definition unable_to_categorize :: string where
  "unable_to_categorize = ''Unable to categorize, routing to general support''"

definition parse_agent_choice :: "str_methods \<Rightarrow> string \<Rightarrow> string \<times> string" where
  "parse_agent_choice U response =
     (case str_split ''|'' 1 response of
        [agent_choice, reason] \<Rightarrow> (str_strip U agent_choice, str_strip U reason)
      | _ \<Rightarrow> (''general_agent'', unable_to_categorize))"

definition handoff_text :: "str_methods \<Rightarrow> string \<Rightarrow> string \<Rightarrow> string" where
  "handoff_text U agent_choice reason =
     ''I'm routing your request to our '' @
     str_title U (str_replace CHR ''_'' CHR '' '' agent_choice) @
     '' team. '' @ reason"

definition supervisor_node ::
  "str_methods \<Rightarrow> environ \<Rightarrow> completion \<Rightarrow> support_state
     \<Rightarrow> error + support_state \<times> llm_call list"
where
  "supervisor_node U env complete state =
     (let msgs = messages state;
          last_message = (if msgs = [] then None else Some (last msgs))
      in case last_message of
           Some (HumanMessage text) \<Rightarrow>
             let agent = current_active_agent U msgs;
                 user_content = str_lower U text;
                 is_requesting_billing = any_keyword_in billing_keywords user_content;
                 is_requesting_technical = any_keyword_in technical_keywords user_content;
                 is_requesting_general = any_keyword_in general_keywords user_content
             in if agent \<noteq> None \<and>
                   \<not> (is_requesting_billing \<or> is_requesting_technical \<or> is_requesting_general)
                then
                  Inr (\<lparr>messages = msgs, active_agent = agent, ticket_category = None,
                        customer_id = None, next_agent = agent\<rparr>, [])
                else
                  (case get_llm env of
                     Inl e \<Rightarrow> Inl e
                   | Inr llm \<Rightarrow>
                       let call = [HumanMessage (routing_prompt text (conversation_context msgs))];
                           response = complete llm call;
                           (agent_choice, reason) = parse_agent_choice U response;
                           handoff_message = AIMessage (handoff_text U agent_choice reason)
                       in Inr (\<lparr>messages = msgs @ [handoff_message],
                                active_agent = Some agent_choice, ticket_category = None,
                                customer_id = None, next_agent = Some agent_choice\<rparr>, [call]))
         | _ \<Rightarrow>
             Inr (\<lparr>messages = [AIMessage supervisor_greeting], active_agent = None,
                   ticket_category = None, customer_id = None, next_agent = None\<rparr>, []))"

subsection \<open>Router of the support graph\<close>


section \<open>The three string methods on ASCII text\<close>

text \<open>
  On text made of ASCII characters, \<open>lower\<close>, \<open>strip\<close> and \<open>title\<close> are the
  functions below; the concrete runs in this theory use them.
\<close>

definition is_ascii_upper :: "char \<Rightarrow> bool" where
  "is_ascii_upper c = (65 \<le> (of_char c :: nat) \<and> (of_char c :: nat) \<le> 90)"

definition is_ascii_lower :: "char \<Rightarrow> bool" where
  "is_ascii_lower c = (97 \<le> (of_char c :: nat) \<and> (of_char c :: nat) \<le> 122)"

definition is_ascii_space :: "char \<Rightarrow> bool" where
  "is_ascii_space c =
     ((9 \<le> (of_char c :: nat) \<and> (of_char c :: nat) \<le> 13)
      \<or> (28 \<le> (of_char c :: nat) \<and> (of_char c :: nat) \<le> 32))"

definition to_ascii_lower :: "char \<Rightarrow> char" where
  "to_ascii_lower c = (if is_ascii_upper c then char_of ((of_char c :: nat) + 32) else c)"

definition to_ascii_upper :: "char \<Rightarrow> char" where
  "to_ascii_upper c = (if is_ascii_lower c then char_of ((of_char c :: nat) - 32) else c)"

definition ascii_lower :: "string \<Rightarrow> string" where
  "ascii_lower s = map to_ascii_lower s"

definition ascii_strip :: "string \<Rightarrow> string" where
  "ascii_strip s = rev (dropWhile is_ascii_space (rev (dropWhile is_ascii_space s)))"

fun ascii_title_from :: "bool \<Rightarrow> string \<Rightarrow> string" where
  "ascii_title_from previous_is_cased [] = []"
| "ascii_title_from previous_is_cased (c # cs) =
     (if is_ascii_lower c then
        (if previous_is_cased then c else to_ascii_upper c) # ascii_title_from True cs
      else if is_ascii_upper c then
        (if previous_is_cased then to_ascii_lower c else c) # ascii_title_from True cs
      else c # ascii_title_from False cs)"

definition ascii_title :: "string \<Rightarrow> string" where
  "ascii_title s = ascii_title_from False s"

definition ascii_methods :: str_methods where
  "ascii_methods = \<lparr>str_lower = ascii_lower, str_strip = ascii_strip, str_title = ascii_title\<rparr>"

section \<open>Concrete inputs\<close>

text \<open>An environment that holds a credential, one that holds none, and two canned completions.\<close>

definition env_with_key :: environ where
  "env_with_key name = (if name = ''OPENAI_API_KEY'' then Some ''sk-test'' else None)"

definition env_without_key :: environ where
  "env_without_key name = None"

definition canned_ok :: completion where
  "canned_ok llm call = ''ok''"

definition canned_billing :: completion where
  "canned_billing llm call = ''billing_agent|The customer asks for a refund.''"

definition canned_billing_not_technical :: completion where
  "canned_billing_not_technical llm call =
     ''billing_agent|Refunds are handled by billing, not by a technical agent.''"

text \<open>A conversation in which the technical specialist is active.\<close>

definition technical_history :: "message list" where
  "technical_history =
     [HumanMessage ''I forgot my password'',
      AIMessage ''I'm routing your request to our Technical Agent team. Password reset is a technical issue.'',
      AIMessage ''A reset link was sent to your email.'']"

section \<open>Auxiliary facts\<close>

lemma get_llm_env_with_key: "get_llm env_with_key = Inr (ChatOpenAI ''gpt-4o-mini'' 0)"
  by (simp add: get_llm_def env_with_key_def)

lemma get_llm_env_without_key:
  "get_llm env_without_key = Inl (ValueError ''Please set OPENAI_API_KEY environment variable'')"
  by (simp add: get_llm_def env_without_key_def)

lemma length_step_prompts: "length (step_prompts problem) = 4"
  by (simp add: step_prompts_def)

lemma py_index_in_range:
  assumes "- int (length xs) \<le> i" and "i < int (length xs)"
  shows "\<exists>x. py_index xs i = Inr x"
  using assms by (simp add: py_index_def Let_def)

lemma py_index_below_range:
  assumes "i < - int (length xs)"
  shows "py_index xs i = Inl IndexError"
  using assms by (simp add: py_index_def Let_def)

text \<open>The substring test is the sublist relation; a cut splits the text around the separator.\<close>

lemma str_in_sublist: "str_in sub s = sublist sub s"
  by (induction s) (auto simp: sublist_Cons_right)

lemma partition_at_Some:
  "partition_at sep s = Some (before, rest) \<Longrightarrow> s = before @ sep @ rest"
proof (induction s arbitrary: before)
  case Nil
  then show ?case by simp
next
  case (Cons c cs)
  show ?case
  proof (cases "prefix sep (c # cs)")
    case True
    then have "c # cs = sep @ drop (length sep) (c # cs)"
      by (metis append_eq_conv_conj prefix_def)
    with True Cons.prems show ?thesis by simp
  next
    case False
    with Cons.prems obtain b where "partition_at sep cs = Some (b, rest)" and "before = c # b"
      by (auto split: option.splits)
    with Cons.IH show ?thesis by simp
  qed
qed

lemma partition_at_Some_iff_in:
  "sep \<noteq> [] \<Longrightarrow> (partition_at sep s \<noteq> None) = str_in sep s"
  by (induction s) (auto split: option.splits)

text \<open>The number of steps the synthesizer recovers does not depend on \<open>str.strip\<close>.\<close>

lemma extract_reasoning_steps_length:
  "length acc = length acc' \<Longrightarrow>
     length (extract_reasoning_steps U msgs acc) = length (extract_reasoning_steps U' msgs acc')"
proof (induction msgs arbitrary: acc acc')
  case Nil
  then show ?case by simp
next
  case (Cons msg msgs)
  show ?case
    by (cases msg)
       (auto simp: Let_def Cons.prems intro!: Cons.IH simp del: str_in.simps str_split.simps)
qed

lemma scan_active_agent_no_routing:
  "\<forall>m \<in> set msgs. \<not> is_routing_message U m \<Longrightarrow> scan_active_agent U msgs = None"
  by (induction msgs) simp_all

lemma current_active_agent_no_routing:
  "\<forall>m \<in> set (butlast msgs). \<not> is_routing_message U m \<Longrightarrow> current_active_agent U msgs = None"
  by (simp add: current_active_agent_def scan_active_agent_no_routing)

lemma partition_at_None: "\<not> str_in sep s \<Longrightarrow> partition_at sep s = None"
  by (induction s) (auto split: option.splits)

lemma parse_agent_choice_no_delimiter:
  "\<not> str_in ''|'' response \<Longrightarrow>
     parse_agent_choice U response = (''general_agent'', unable_to_categorize)"
  by (simp add: parse_agent_choice_def partition_at_None
        del: str_in.simps partition_at.simps)

text \<open>
  The classification path of the supervisor: the latest message is a user message, and
  either no specialist is active or one of the keyword sets matches. With a credential,
  one call is issued and one handoff announcement is appended.
\<close>

lemma supervisor_node_classifies:
  assumes "messages state \<noteq> []"
      and "last (messages state) = HumanMessage text"
      and "current_active_agent U (messages state) = None
           \<or> any_keyword_in billing_keywords (str_lower U text)
           \<or> any_keyword_in technical_keywords (str_lower U text)
           \<or> any_keyword_in general_keywords (str_lower U text)"
      and "get_llm env = Inr llm"
      and "parse_agent_choice U
             (complete llm [HumanMessage (routing_prompt text (conversation_context (messages state)))])
           = (agent_choice, reason)"
  shows "supervisor_node U env complete state =
           Inr (\<lparr>messages = messages state @ [AIMessage (handoff_text U agent_choice reason)],
                 active_agent = Some agent_choice, ticket_category = None,
                 customer_id = None, next_agent = Some agent_choice\<rparr>,
                [[HumanMessage (routing_prompt text (conversation_context (messages state)))]])"
  using assms by (auto simp: supervisor_node_def Let_def)

text \<open>
  Without a credential every path that builds the client raises, also the paths that
  issue no call: the reasoner and the synthesizer build the client first.
\<close>

lemma step_by_step_reasoner_no_credential:
  "get_llm env = Inl e \<Longrightarrow> step_by_step_reasoner env complete state = Inl e"
  by (simp add: step_by_step_reasoner_def)

lemma conclusion_synthesizer_no_credential:
  "get_llm env = Inl e \<Longrightarrow> conclusion_synthesizer U env complete state = Inl e"
  by (simp add: conclusion_synthesizer_def)

text \<open>
  A counter below \<open>-4\<close> is no index of the four templates: the reasoner raises.
  The counter of the reasoning state ranges over \<open>0..4\<close>.
\<close>

lemma step_by_step_reasoner_index_error:
  assumes "get_llm env = Inr llm"
      and "get_current_problem state \<noteq> []"
      and "get_step_count state < - 4"
  shows "step_by_step_reasoner env complete state = Inl IndexError"
  using assms
  by (simp add: step_by_step_reasoner_def Let_def length_step_prompts py_index_below_range)

text \<open>
  The states of a run: the coordinator establishes them from the input of the
  application, which holds the messages only, and the reasoner preserves them.
\<close>

lemma reasoning_coordinator_run_state:
  assumes "current_problem state = None" and "step_count state = None"
  shows "run_state (reasoning_coordinator state)"
  using assms
  by (auto simp: reasoning_coordinator_def run_state_def get_step_count_def
        get_current_problem_def split: message.splits)

lemma step_by_step_reasoner_run_state:
  assumes "run_state state"
      and "step_by_step_reasoner env complete state = Inr (state', calls)"
  shows "run_state state'"
  using assms
  by (auto simp: step_by_step_reasoner_def Let_def length_step_prompts run_state_def
        get_step_count_def get_current_problem_def py_index_def
        split: sum.splits if_splits option.splits)

lemma py_index_nat:
  "0 \<le> i \<Longrightarrow> i < int (length xs) \<Longrightarrow> py_index xs i = Inr (xs ! nat i)"
  by (simp add: py_index_def)

lemma title_step_prompts:
  "n < 4 \<Longrightarrow> title (step_prompts problem ! n) =
     [''Problem Analysis'', ''Information Gathering'', ''Option Generation'',
      ''Evaluation & Decision''] ! n"
proof -
  assume "n < 4"
  then consider "n = 0" | "n = 1" | "n = 2" | "n = 3" by linarith
  then show ?thesis
    by cases (simp_all add: step_prompts_def)
qed

text \<open>
  The sticky branch of the supervisor continues with whatever specialist the scan
  returns.
\<close>

lemma supervisor_node_continues:
  assumes "messages state \<noteq> []"
      and "last (messages state) = HumanMessage text"
      and "current_active_agent U (messages state) = Some agent"
      and "\<not> any_keyword_in billing_keywords (str_lower U text)"
      and "\<not> any_keyword_in technical_keywords (str_lower U text)"
      and "\<not> any_keyword_in general_keywords (str_lower U text)"
  shows "supervisor_node U env complete state =
           Inr (\<lparr>messages = messages state, active_agent = Some agent, ticket_category = None,
                 customer_id = None, next_agent = Some agent\<rparr>, [])"
  using assms by (simp add: supervisor_node_def Let_def)

text \<open>
  The scan against the announcement the supervisor itself writes: it returns the
  announced specialist when the reason that follows the announcement names none of the
  three specialists. (The scan tests the whole text of the announcement, reason
  included, for \<open>technical agent\<close>, then \<open>billing agent\<close>, then \<open>general agent\<close>.)
\<close>

lemma scan_active_agent_skip:
  "\<forall>m \<in> set xs. \<not> is_routing_message U m \<Longrightarrow>
     scan_active_agent U (xs @ ys) = scan_active_agent U ys"
  by (induction xs) simp_all

lemma ascii_lower_append: "ascii_lower (xs @ ys) = ascii_lower xs @ ascii_lower ys"
  by (simp add: ascii_lower_def)

lemma lower_handoff_technical:
  "ascii_lower (handoff_text ascii_methods ''technical_agent'' reason)
   = ''i'm routing your request to our technical agent team. '' @ ascii_lower reason"
proof -
  have "ascii_lower (''I'm routing your request to our '' @
          ascii_title (str_replace CHR ''_'' CHR '' '' ''technical_agent'') @ '' team. '')
        = ''i'm routing your request to our technical agent team. ''"
    by code_simp
  then show ?thesis
    by (simp add: handoff_text_def ascii_methods_def ascii_lower_append
          del: append.simps ascii_title_from.simps)
qed

lemma lower_handoff_billing:
  "ascii_lower (handoff_text ascii_methods ''billing_agent'' reason)
   = ''i'm routing your request to our billing agent team. '' @ ascii_lower reason"
proof -
  have "ascii_lower (''I'm routing your request to our '' @
          ascii_title (str_replace CHR ''_'' CHR '' '' ''billing_agent'') @ '' team. '')
        = ''i'm routing your request to our billing agent team. ''"
    by code_simp
  then show ?thesis
    by (simp add: handoff_text_def ascii_methods_def ascii_lower_append
          del: append.simps ascii_title_from.simps)
qed

lemma lower_handoff_general:
  "ascii_lower (handoff_text ascii_methods ''general_agent'' reason)
   = ''i'm routing your request to our general agent team. '' @ ascii_lower reason"
proof -
  have "ascii_lower (''I'm routing your request to our '' @
          ascii_title (str_replace CHR ''_'' CHR '' '' ''general_agent'') @ '' team. '')
        = ''i'm routing your request to our general agent team. ''"
    by code_simp
  then show ?thesis
    by (simp add: handoff_text_def ascii_methods_def ascii_lower_append
          del: append.simps ascii_title_from.simps)
qed

lemma scan_active_agent_announced:
  assumes "agent_choice \<in> {''technical_agent'', ''billing_agent'', ''general_agent''}"
      and "\<not> str_in ''technical agent'' (ascii_lower reason)"
      and "\<not> str_in ''billing agent'' (ascii_lower reason)"
      and "\<not> str_in ''general agent'' (ascii_lower reason)"
  shows "scan_active_agent ascii_methods
           (AIMessage (handoff_text ascii_methods agent_choice reason) # msgs)
         = Some agent_choice"
proof -
  have lower: "str_lower ascii_methods = ascii_lower" by (simp add: ascii_methods_def)
  from assms(1) consider "agent_choice = ''technical_agent''"
    | "agent_choice = ''billing_agent''" | "agent_choice = ''general_agent''" by blast
  then show ?thesis
  proof cases
    case 1
    then show ?thesis
      using assms(2-4)
      by (simp add: is_routing_message_def lower lower_handoff_technical)
  next
    case 2
    then show ?thesis
      using assms(2-4)
      by (simp add: is_routing_message_def lower lower_handoff_billing)
  next
    case 3
    then show ?thesis
      using assms(2-4)
      by (simp add: is_routing_message_def lower lower_handoff_general)
  qed
qed

lemma current_active_agent_announced:
  assumes "agent_choice \<in> {''technical_agent'', ''billing_agent'', ''general_agent''}"
      and "\<not> str_in ''technical agent'' (ascii_lower reason)"
      and "\<not> str_in ''billing agent'' (ascii_lower reason)"
      and "\<not> str_in ''general agent'' (ascii_lower reason)"
      and "\<forall>m \<in> set replies. \<not> is_routing_message ascii_methods m"
  shows "current_active_agent ascii_methods
           (earlier @ [AIMessage (handoff_text ascii_methods agent_choice reason)] @ replies
              @ [latest])
         = Some agent_choice"
proof -
  have "rev (butlast (earlier @ [AIMessage (handoff_text ascii_methods agent_choice reason)]
               @ replies @ [latest]))
        = rev replies @ AIMessage (handoff_text ascii_methods agent_choice reason) # rev earlier"
    by (simp add: butlast_append)
  moreover have "\<forall>m \<in> set (rev replies). \<not> is_routing_message ascii_methods m"
    using assms(5) by simp
  ultimately show ?thesis
    using scan_active_agent_announced [OF assms(1-4)]
    by (simp add: current_active_agent_def scan_active_agent_skip
          del: scan_active_agent.simps)
qed

lemma supervisor_node_continues_announced:
  assumes "agent_choice \<in> {''technical_agent'', ''billing_agent'', ''general_agent''}"
      and "\<not> str_in ''technical agent'' (ascii_lower reason)"
      and "\<not> str_in ''billing agent'' (ascii_lower reason)"
      and "\<not> str_in ''general agent'' (ascii_lower reason)"
      and "\<forall>m \<in> set replies. \<not> is_routing_message ascii_methods m"
      and "messages state =
             earlier @ [AIMessage (handoff_text ascii_methods agent_choice reason)] @ replies
               @ [HumanMessage text]"
      and "\<not> any_keyword_in billing_keywords (ascii_lower text)"
      and "\<not> any_keyword_in technical_keywords (ascii_lower text)"
      and "\<not> any_keyword_in general_keywords (ascii_lower text)"
  shows "supervisor_node ascii_methods env complete state =
           Inr (\<lparr>messages = messages state, active_agent = Some agent_choice,
                 ticket_category = None, customer_id = None,
                 next_agent = Some agent_choice\<rparr>, [])"
proof -
  have lower: "str_lower ascii_methods = ascii_lower" by (simp add: ascii_methods_def)
  have agent: "current_active_agent ascii_methods (messages state) = Some agent_choice"
    using current_active_agent_announced [OF assms(1-5), of earlier "HumanMessage text"]
    by (simp add: assms(6))
  show ?thesis
    using supervisor_node_continues
            [of state "text" ascii_methods agent_choice env complete]
          agent assms(6-9)
    by (simp add: lower)
qed

section \<open>Properties of the reasoning workflow\<close>

text \<open>
  C7. The flow router is a function of the step counter alone: whatever the counter
  (0 when the key is absent), the answer is the stepping decision exactly when the
  counter is below 4, the conclusion decision exactly when it is at least 4, and never
  the \<open>end\<close> branch.
\<close>

theorem route_reasoning_flow_counter:
  "(route_reasoning_flow state = ''step_reasoner'') = (get_step_count state < 4)
   \<and> (route_reasoning_flow state = ''conclusion'') = (4 \<le> get_step_count state)
   \<and> route_reasoning_flow state \<noteq> ''end''
   \<and> route_reasoning_flow state =
       route_reasoning_flow \<lparr>messages = [], current_problem = None,
                             step_count = Some (get_step_count state)\<rparr>"
  by (simp add: route_reasoning_flow_def get_step_count_def Let_def)

text \<open>The router at the counters 3 and 4.\<close>

theorem route_reasoning_flow_counter_witness:
  "route_reasoning_flow \<lparr>messages = [], current_problem = Some ''p'', step_count = Some 3\<rparr>
     = ''step_reasoner''
   \<and> route_reasoning_flow \<lparr>messages = [], current_problem = Some ''p'', step_count = Some 4\<rparr>
     = ''conclusion''"
  using route_reasoning_flow_counter
          [of "\<lparr>messages = [], current_problem = Some ''p'', step_count = Some 3\<rparr>"]
        route_reasoning_flow_counter
          [of "\<lparr>messages = [], current_problem = Some ''p'', step_count = Some 4\<rparr>"]
  by (simp add: get_step_count_def)

text \<open>
  C8, as the code has it. The announcement is not static: it quotes the text of the
  user's message, so two different messages get two different announcements.
\<close>

theorem reasoning_coordinator_announcement_counterexample:
  \<open>reasoning_coordinator
      \<lparr>messages = [HumanMessage ''Should I learn Rust?''], current_problem = None,
       step_count = None\<rparr>
    = \<lparr>messages =
         [HumanMessage ''Should I learn Rust?'',
          AIMessage
            ([CHR 0xF0, CHR 0x9F, CHR 0xA7, CHR 0xA0] @
             '' **Starting Chain of Thought Analysis**\<newline>\<newline>'' @
             ''I need to think through this problem step by step: "Should I learn Rust?"\<newline>\<newline>'' @
             ''Let me break this down systematically using a structured reasoning approach.'')],
       current_problem = Some ''Should I learn Rust?'', step_count = Some 0\<rparr>
   \<and> reasoning_coordinator
      \<lparr>messages = [HumanMessage ''Should I learn Go?''], current_problem = None,
       step_count = None\<rparr>
    = \<lparr>messages =
         [HumanMessage ''Should I learn Go?'',
          AIMessage
            ([CHR 0xF0, CHR 0x9F, CHR 0xA7, CHR 0xA0] @
             '' **Starting Chain of Thought Analysis**\<newline>\<newline>'' @
             ''I need to think through this problem step by step: "Should I learn Go?"\<newline>\<newline>'' @
             ''Let me break this down systematically using a structured reasoning approach.'')],
       current_problem = Some ''Should I learn Go?'', step_count = Some 0\<rparr>
   \<and> last (messages (reasoning_coordinator
        \<lparr>messages = [HumanMessage ''Should I learn Rust?''], current_problem = None,
         step_count = None\<rparr>))
     \<noteq> last (messages (reasoning_coordinator
        \<lparr>messages = [HumanMessage ''Should I learn Go?''], current_problem = None,
         step_count = None\<rparr>))\<close>
  by (simp add: reasoning_coordinator_def reasoning_prompt_def)

text \<open>
  C8, amended. With an empty history the coordinator returns exactly one message, the
  static greeting. With a history whose latest message is a user message, it sets the
  problem statement to that message's text, resets the step counter to 0, and appends one
  "starting analysis" announcement: the fixed template below around the quoted text of
  that message.
\<close>

theorem reasoning_coordinator_contract:
  \<open>(messages state = [] \<longrightarrow>
      reasoning_coordinator state =
        \<lparr>messages =
           [AIMessage ''Hello! I'm your Chain of Thought Reasoning Agent. I'll help you think through problems step by step. What would you like me to analyze?''],
         current_problem = None, step_count = None\<rparr>)
   \<and> (messages state \<noteq> [] \<and> last (messages state) = HumanMessage text \<longrightarrow>
      reasoning_coordinator state =
        \<lparr>messages = messages state @
           [AIMessage
              ([CHR 0xF0, CHR 0x9F, CHR 0xA7, CHR 0xA0] @
               '' **Starting Chain of Thought Analysis**\<newline>\<newline>'' @
               ''I need to think through this problem step by step: "'' @ text @ ''"\<newline>\<newline>'' @
               ''Let me break this down systematically using a structured reasoning approach.'')],
         current_problem = Some text,
         step_count = Some 0\<rparr>)\<close>
  by (simp add: reasoning_coordinator_def coordinator_greeting_def reasoning_prompt_def)

text \<open>The coordinator on the empty history and on a first user message.\<close>

theorem reasoning_coordinator_contract_witness:
  \<open>reasoning_coordinator \<lparr>messages = [], current_problem = None, step_count = None\<rparr>
     = \<lparr>messages =
          [AIMessage ''Hello! I'm your Chain of Thought Reasoning Agent. I'll help you think through problems step by step. What would you like me to analyze?''],
        current_problem = None, step_count = None\<rparr>
   \<and> reasoning_coordinator
       \<lparr>messages = [HumanMessage ''How can I improve my team's productivity?''],
        current_problem = None, step_count = None\<rparr>
     = \<lparr>messages =
          [HumanMessage ''How can I improve my team's productivity?'',
           AIMessage
             ([CHR 0xF0, CHR 0x9F, CHR 0xA7, CHR 0xA0] @
              '' **Starting Chain of Thought Analysis**\<newline>\<newline>'' @
              ''I need to think through this problem step by step: "How can I improve my team's productivity?"\<newline>\<newline>'' @
              ''Let me break this down systematically using a structured reasoning approach.'')],
        current_problem = Some ''How can I improve my team's productivity?'',
        step_count = Some 0\<rparr>\<close>
  using reasoning_coordinator_contract
          [of "\<lparr>messages = [], current_problem = None, step_count = None\<rparr>" "[]"]
        reasoning_coordinator_contract
          [of "\<lparr>messages = [HumanMessage ''How can I improve my team's productivity?''],
                current_problem = None, step_count = None\<rparr>"
              "''How can I improve my team's productivity?''"]
  by simp





text \<open>
  C1. With a credential configured, on every state of a run (counter in \<open>0..4\<close>,
  counter 0 while no problem statement is set): when the problem statement is not empty
  and the counter is below 4, the reasoner issues one call with the template of that
  counter, appends exactly one step message (the answer under the header with the step's
  number and title) and returns the counter plus one; when the counter has reached 4, it
  returns the state unchanged and issues no call. The reasoner always returns, and the
  counter it returns is at most 4.
\<close>

theorem step_by_step_reasoner_counter:
  assumes llm: "get_llm env = Inr llm"
      and run: "run_state state"
  shows "(get_current_problem state \<noteq> [] \<and> get_step_count state < 4 \<longrightarrow>
            step_by_step_reasoner env complete state =
              Inr (\<lparr>messages = messages state @
                      [AIMessage
                         ([CHR 0xF0, CHR 0x9F, CHR 0x94, CHR 0x8D] @ '' **Step '' @
                          str_of_int (get_step_count state + 1) @ '': '' @
                          [''Problem Analysis'', ''Information Gathering'', ''Option Generation'',
                           ''Evaluation & Decision''] ! nat (get_step_count state) @
                          ''**\<newline>\<newline>'' @
                          complete llm
                            [SystemMessage reasoner_system_text,
                             HumanMessage
                               (prompt (step_prompts (get_current_problem state)
                                          ! nat (get_step_count state)))])],
                    current_problem = Some (get_current_problem state),
                    step_count = Some (get_step_count state + 1)\<rparr>,
                   [[SystemMessage reasoner_system_text,
                     HumanMessage
                       (prompt (step_prompts (get_current_problem state)
                                  ! nat (get_step_count state)))]]))
       \<and> (4 \<le> get_step_count state \<longrightarrow>
            step_by_step_reasoner env complete state = Inr (state, []))
       \<and> (\<exists>state' calls.
            step_by_step_reasoner env complete state = Inr (state', calls)
            \<and> get_step_count state' \<le> 4)"
proof (intro conjI impI)
  assume h: "get_current_problem state \<noteq> [] \<and> get_step_count state < 4"
  have n0: "0 \<le> get_step_count state" using run by (simp add: run_state_def)
  have idx: "py_index (step_prompts (get_current_problem state)) (get_step_count state)
             = Inr (step_prompts (get_current_problem state) ! nat (get_step_count state))"
    using h n0 by (simp add: py_index_nat length_step_prompts)
  have ttl: "title (step_prompts (get_current_problem state) ! nat (get_step_count state))
             = [''Problem Analysis'', ''Information Gathering'', ''Option Generation'',
                ''Evaluation & Decision''] ! nat (get_step_count state)"
    using h n0 by (intro title_step_prompts) linarith
  show "step_by_step_reasoner env complete state =
              Inr (\<lparr>messages = messages state @
                      [AIMessage
                         ([CHR 0xF0, CHR 0x9F, CHR 0x94, CHR 0x8D] @ '' **Step '' @
                          str_of_int (get_step_count state + 1) @ '': '' @
                          [''Problem Analysis'', ''Information Gathering'', ''Option Generation'',
                           ''Evaluation & Decision''] ! nat (get_step_count state) @
                          ''**\<newline>\<newline>'' @
                          complete llm
                            [SystemMessage reasoner_system_text,
                             HumanMessage
                               (prompt (step_prompts (get_current_problem state)
                                          ! nat (get_step_count state)))])],
                    current_problem = Some (get_current_problem state),
                    step_count = Some (get_step_count state + 1)\<rparr>,
                   [[SystemMessage reasoner_system_text,
                     HumanMessage
                       (prompt (step_prompts (get_current_problem state)
                                  ! nat (get_step_count state)))]])"
    using llm h
    by (simp add: step_by_step_reasoner_def Let_def length_step_prompts idx ttl step_message_def)
next
  assume h: "4 \<le> get_step_count state"
  then have "get_current_problem state \<noteq> []" using run by (auto simp: run_state_def)
  with h show "step_by_step_reasoner env complete state = Inr (state, [])"
    using llm by (simp add: step_by_step_reasoner_def Let_def length_step_prompts)
next
  have n0: "0 \<le> get_step_count state" and n4: "get_step_count state \<le> 4"
    using run by (simp_all add: run_state_def)
  have idx: "py_index (step_prompts (get_current_problem state)) (get_step_count state)
             = Inr (step_prompts (get_current_problem state) ! nat (get_step_count state))"
    if "get_step_count state < 4"
    using that n0 by (simp add: py_index_nat length_step_prompts)
  show "\<exists>state' calls.
            step_by_step_reasoner env complete state = Inr (state', calls)
            \<and> get_step_count state' \<le> 4"
    using llm n0 n4 idx
    by (auto simp: step_by_step_reasoner_def Let_def length_step_prompts get_step_count_def)
qed

text \<open>The reasoner at the counters 0 and 4, with the problem statement \<open>p\<close>.\<close>

theorem step_by_step_reasoner_counter_witness:
  "run_state \<lparr>messages = [], current_problem = Some ''p'', step_count = Some 0\<rparr>
   \<and> run_state \<lparr>messages = [], current_problem = Some ''p'', step_count = Some 4\<rparr>
   \<and> step_by_step_reasoner env_with_key canned_ok
       \<lparr>messages = [], current_problem = Some ''p'', step_count = Some 0\<rparr>
     = Inr (\<lparr>messages =
               [AIMessage ([CHR 0xF0, CHR 0x9F, CHR 0x94, CHR 0x8D] @
                           '' **Step 1: Problem Analysis**\<newline>\<newline>ok'')],
             current_problem = Some ''p'', step_count = Some 1\<rparr>,
            [[SystemMessage reasoner_system_text,
              HumanMessage (prompt (step_prompts ''p'' ! 0))]])
   \<and> step_by_step_reasoner env_with_key canned_ok
       \<lparr>messages = [], current_problem = Some ''p'', step_count = Some 4\<rparr>
     = Inr (\<lparr>messages = [], current_problem = Some ''p'', step_count = Some 4\<rparr>, [])"
proof -
  have run0: "run_state \<lparr>messages = [], current_problem = Some ''p'', step_count = Some 0\<rparr>"
    by (simp add: run_state_def get_step_count_def get_current_problem_def)
  have run4: "run_state \<lparr>messages = [], current_problem = Some ''p'', step_count = Some 4\<rparr>"
    by (simp add: run_state_def get_step_count_def get_current_problem_def)
  have one: "str_of_int 1 = ''1''"
    by code_simp
  show ?thesis
    using step_by_step_reasoner_counter
            [OF get_llm_env_with_key run0, of canned_ok]
          step_by_step_reasoner_counter
            [OF get_llm_env_with_key run4, of canned_ok]
          run0 run4
    by (simp add: get_current_problem_def get_step_count_def canned_ok_def one)
qed

section \<open>Properties of the support workflow\<close>

text \<open>
  C2. The sticky path is meant to reuse the previously active specialist, and does so
  when the handoff reason names no specialist (see the auxiliary facts). It misses the
  case of a reason that names another specialist. First turn below: a refund request is
  classified as \<open>billing_agent\<close>, with a reason that mentions "a technical agent";
  the supervisor announces the Billing Agent team and sets \<open>billing_agent\<close> as active
  and next agent. Second turn: the user's follow-up holds no keyword, no call is issued
  and no message appended, but the specialist reused is \<open>technical_agent\<close>.
\<close>

theorem supervisor_node_sticky_wrong_specialist:
  "supervisor_node ascii_methods env_with_key canned_billing_not_technical
     \<lparr>messages = [HumanMessage ''I was charged twice this month and need a refund''],
      active_agent = None, ticket_category = None, customer_id = None, next_agent = None\<rparr>
   = Inr (\<lparr>messages =
             [HumanMessage ''I was charged twice this month and need a refund'',
              AIMessage ''I'm routing your request to our Billing Agent team. Refunds are handled by billing, not by a technical agent.''],
           active_agent = Some ''billing_agent'', ticket_category = None,
           customer_id = None, next_agent = Some ''billing_agent''\<rparr>,
          [[HumanMessage
              (routing_prompt ''I was charged twice this month and need a refund'' [])]])
   \<and> supervisor_node ascii_methods env_with_key canned_billing_not_technical
       \<lparr>messages =
          [HumanMessage ''I was charged twice this month and need a refund'',
           AIMessage ''I'm routing your request to our Billing Agent team. Refunds are handled by billing, not by a technical agent.'',
           AIMessage ''Your refund has been processed.'',
           HumanMessage ''Thanks a lot''],
        active_agent = Some ''billing_agent'', ticket_category = None,
        customer_id = None, next_agent = Some ''billing_agent''\<rparr>
   = Inr (\<lparr>messages =
             [HumanMessage ''I was charged twice this month and need a refund'',
              AIMessage ''I'm routing your request to our Billing Agent team. Refunds are handled by billing, not by a technical agent.'',
              AIMessage ''Your refund has been processed.'',
              HumanMessage ''Thanks a lot''],
           active_agent = Some ''technical_agent'', ticket_category = None,
           customer_id = None, next_agent = Some ''technical_agent''\<rparr>, [])"
proof -
  have ctx: "conversation_context
               [HumanMessage ''I was charged twice this month and need a refund''] = []"
    by (simp add: conversation_context_def)
  have first_agent:
    "current_active_agent ascii_methods
       [HumanMessage ''I was charged twice this month and need a refund''] = None"
    by code_simp
  have parsed:
    "parse_agent_choice ascii_methods
       ''billing_agent|Refunds are handled by billing, not by a technical agent.''
     = (''billing_agent'', ''Refunds are handled by billing, not by a technical agent.'')"
    by code_simp
  have handoff:
    "handoff_text ascii_methods ''billing_agent''
       ''Refunds are handled by billing, not by a technical agent.''
     = ''I'm routing your request to our Billing Agent team. Refunds are handled by billing, not by a technical agent.''"
    by code_simp
  have turn1:
    "supervisor_node ascii_methods env_with_key canned_billing_not_technical
       \<lparr>messages = [HumanMessage ''I was charged twice this month and need a refund''],
        active_agent = None, ticket_category = None, customer_id = None, next_agent = None\<rparr>
     = Inr (\<lparr>messages =
               [HumanMessage ''I was charged twice this month and need a refund'',
                AIMessage ''I'm routing your request to our Billing Agent team. Refunds are handled by billing, not by a technical agent.''],
             active_agent = Some ''billing_agent'', ticket_category = None,
             customer_id = None, next_agent = Some ''billing_agent''\<rparr>,
            [[HumanMessage
                (routing_prompt ''I was charged twice this month and need a refund'' [])]])"
    using supervisor_node_classifies
            [of "\<lparr>messages = [HumanMessage ''I was charged twice this month and need a refund''],
                  active_agent = None, ticket_category = None, customer_id = None,
                  next_agent = None\<rparr>"
                "''I was charged twice this month and need a refund''" ascii_methods
                env_with_key "ChatOpenAI ''gpt-4o-mini'' 0" canned_billing_not_technical
                "''billing_agent''"
                "''Refunds are handled by billing, not by a technical agent.''"]
          first_agent get_llm_env_with_key
    by (simp add: ctx canned_billing_not_technical_def parsed handoff)
  have agent:
    "current_active_agent ascii_methods
       [HumanMessage ''I was charged twice this month and need a refund'',
        AIMessage ''I'm routing your request to our Billing Agent team. Refunds are handled by billing, not by a technical agent.'',
        AIMessage ''Your refund has been processed.'',
        HumanMessage ''Thanks a lot'']
     = Some ''technical_agent''"
    by code_simp
  have b: "\<not> any_keyword_in billing_keywords (str_lower ascii_methods ''Thanks a lot'')"
    by code_simp
  have t: "\<not> any_keyword_in technical_keywords (str_lower ascii_methods ''Thanks a lot'')"
    by code_simp
  have g: "\<not> any_keyword_in general_keywords (str_lower ascii_methods ''Thanks a lot'')"
    by code_simp
  have turn2:
    "supervisor_node ascii_methods env_with_key canned_billing_not_technical
       \<lparr>messages =
          [HumanMessage ''I was charged twice this month and need a refund'',
           AIMessage ''I'm routing your request to our Billing Agent team. Refunds are handled by billing, not by a technical agent.'',
           AIMessage ''Your refund has been processed.'',
           HumanMessage ''Thanks a lot''],
        active_agent = Some ''billing_agent'', ticket_category = None,
        customer_id = None, next_agent = Some ''billing_agent''\<rparr>
     = Inr (\<lparr>messages =
               [HumanMessage ''I was charged twice this month and need a refund'',
                AIMessage ''I'm routing your request to our Billing Agent team. Refunds are handled by billing, not by a technical agent.'',
                AIMessage ''Your refund has been processed.'',
                HumanMessage ''Thanks a lot''],
             active_agent = Some ''technical_agent'', ticket_category = None,
             customer_id = None, next_agent = Some ''technical_agent''\<rparr>, [])"
    using supervisor_node_continues
            [of "\<lparr>messages =
                    [HumanMessage ''I was charged twice this month and need a refund'',
                     AIMessage ''I'm routing your request to our Billing Agent team. Refunds are handled by billing, not by a technical agent.'',
                     AIMessage ''Your refund has been processed.'',
                     HumanMessage ''Thanks a lot''],
                  active_agent = Some ''billing_agent'', ticket_category = None,
                  customer_id = None, next_agent = Some ''billing_agent''\<rparr>"
                "''Thanks a lot''" ascii_methods "''technical_agent''"
                env_with_key canned_billing_not_technical]
          agent b t g
    by simp
  show ?thesis using turn1 turn2 by simp
qed

text \<open>
  C3. When the latest message is a user message whose lowercased text contains a billing
  keyword, and no earlier message is a handoff announcement, the supervisor (with a
  credential configured) issues exactly one classification call and appends the handoff
  announcement built from the answer; the result is never the sticky continuation, which
  issues no call.
\<close>

theorem supervisor_node_no_handoff_billing:
  assumes "messages state \<noteq> []"
      and "last (messages state) = HumanMessage text"
      and "\<forall>m \<in> set (butlast (messages state)). \<not> is_routing_message U m"
      and "any_keyword_in billing_keywords (str_lower U text)"
      and "get_llm env = Inr llm"
  shows "\<exists>agent_choice reason.
           parse_agent_choice U
             (complete llm [HumanMessage (routing_prompt text (conversation_context (messages state)))])
             = (agent_choice, reason)
           \<and> supervisor_node U env complete state =
               Inr (\<lparr>messages = messages state @ [AIMessage (handoff_text U agent_choice reason)],
                     active_agent = Some agent_choice, ticket_category = None,
                     customer_id = None, next_agent = Some agent_choice\<rparr>,
                    [[HumanMessage (routing_prompt text (conversation_context (messages state)))]])
           \<and> (\<forall>agent. supervisor_node U env complete state \<noteq>
                 Inr (\<lparr>messages = messages state, active_agent = agent, ticket_category = None,
                       customer_id = None, next_agent = agent\<rparr>, []))"
proof -
  obtain agent_choice reason
    where parsed: "parse_agent_choice U
             (complete llm [HumanMessage (routing_prompt text (conversation_context (messages state)))])
             = (agent_choice, reason)"
    by (cases "parse_agent_choice U
             (complete llm [HumanMessage (routing_prompt text (conversation_context (messages state)))])")
  have "current_active_agent U (messages state) = None"
    using assms(3) by (rule current_active_agent_no_routing)
  then have "supervisor_node U env complete state =
          Inr (\<lparr>messages = messages state @ [AIMessage (handoff_text U agent_choice reason)],
                active_agent = Some agent_choice, ticket_category = None,
                customer_id = None, next_agent = Some agent_choice\<rparr>,
               [[HumanMessage (routing_prompt text (conversation_context (messages state)))]])"
    using supervisor_node_classifies [of state "text" U env llm complete agent_choice reason]
          assms(1,2,5) parsed
    by blast
  then show ?thesis using parsed by simp
qed

text \<open>A first message that asks for a refund is classified.\<close>

theorem supervisor_node_no_handoff_billing_witness:
  "supervisor_node ascii_methods env_with_key canned_billing
     \<lparr>messages = [HumanMessage ''I was charged twice this month and need a refund''],
      active_agent = None, ticket_category = None, customer_id = None, next_agent = None\<rparr>
   = Inr (\<lparr>messages =
             [HumanMessage ''I was charged twice this month and need a refund'',
              AIMessage ''I'm routing your request to our Billing Agent team. The customer asks for a refund.''],
           active_agent = Some ''billing_agent'', ticket_category = None,
           customer_id = None, next_agent = Some ''billing_agent''\<rparr>,
          [[HumanMessage
              (routing_prompt ''I was charged twice this month and need a refund'' [])]])"
proof -
  have kw: "any_keyword_in billing_keywords
              (str_lower ascii_methods ''I was charged twice this month and need a refund'')"
    by code_simp
  have ctx: "conversation_context
               [HumanMessage ''I was charged twice this month and need a refund''] = []"
    by (simp add: conversation_context_def)
  have parsed: "parse_agent_choice ascii_methods ''billing_agent|The customer asks for a refund.''
                = (''billing_agent'', ''The customer asks for a refund.'')"
    by code_simp
  have handoff: "handoff_text ascii_methods ''billing_agent'' ''The customer asks for a refund.''
                 = ''I'm routing your request to our Billing Agent team. The customer asks for a refund.''"
    by code_simp
  show ?thesis
    using supervisor_node_no_handoff_billing
            [of "\<lparr>messages = [HumanMessage ''I was charged twice this month and need a refund''],
                  active_agent = None, ticket_category = None, customer_id = None,
                  next_agent = None\<rparr>"
                "''I was charged twice this month and need a refund''" ascii_methods
                env_with_key "ChatOpenAI ''gpt-4o-mini'' 0" canned_billing]
          kw get_llm_env_with_key
    by (simp add: ctx canned_billing_def parsed handoff)
qed

text \<open>
  C4. When a specialist is active and the lowercased text of the latest user message
  contains a keyword of any of the three sets, the supervisor (with a credential
  configured) does not continue with the active specialist: it issues exactly one
  classification call and appends the handoff announcement built from the answer.
\<close>

theorem supervisor_node_keyword_switch:
  assumes "messages state \<noteq> []"
      and "last (messages state) = HumanMessage text"
      and "current_active_agent U (messages state) = Some agent"
      and "any_keyword_in billing_keywords (str_lower U text)
           \<or> any_keyword_in technical_keywords (str_lower U text)
           \<or> any_keyword_in general_keywords (str_lower U text)"
      and "get_llm env = Inr llm"
  shows "\<exists>agent_choice reason.
           parse_agent_choice U
             (complete llm [HumanMessage (routing_prompt text (conversation_context (messages state)))])
             = (agent_choice, reason)
           \<and> supervisor_node U env complete state =
               Inr (\<lparr>messages = messages state @ [AIMessage (handoff_text U agent_choice reason)],
                     active_agent = Some agent_choice, ticket_category = None,
                     customer_id = None, next_agent = Some agent_choice\<rparr>,
                    [[HumanMessage (routing_prompt text (conversation_context (messages state)))]])
           \<and> supervisor_node U env complete state \<noteq>
               Inr (\<lparr>messages = messages state, active_agent = Some agent, ticket_category = None,
                     customer_id = None, next_agent = Some agent\<rparr>, [])"
proof -
  obtain agent_choice reason
    where parsed: "parse_agent_choice U
             (complete llm [HumanMessage (routing_prompt text (conversation_context (messages state)))])
             = (agent_choice, reason)"
    by (cases "parse_agent_choice U
             (complete llm [HumanMessage (routing_prompt text (conversation_context (messages state)))])")
  have "supervisor_node U env complete state =
          Inr (\<lparr>messages = messages state @ [AIMessage (handoff_text U agent_choice reason)],
                active_agent = Some agent_choice, ticket_category = None,
                customer_id = None, next_agent = Some agent_choice\<rparr>,
               [[HumanMessage (routing_prompt text (conversation_context (messages state)))]])"
    using supervisor_node_classifies [of state "text" U env llm complete agent_choice reason]
          assms(1,2,4,5) parsed
    by blast
  then show ?thesis using parsed by simp
qed

text \<open>The scenario of the specification: \<open>refund please\<close> after a technical handoff.\<close>

theorem supervisor_node_keyword_switch_witness:
  "supervisor_node ascii_methods env_with_key canned_billing
     \<lparr>messages = technical_history @ [HumanMessage ''refund please''],
      active_agent = None, ticket_category = None, customer_id = None, next_agent = None\<rparr>
   = Inr (\<lparr>messages =
             technical_history @
             [HumanMessage ''refund please'',
              AIMessage ''I'm routing your request to our Billing Agent team. The customer asks for a refund.''],
           active_agent = Some ''billing_agent'', ticket_category = None,
           customer_id = None, next_agent = Some ''billing_agent''\<rparr>,
          [[HumanMessage
              (routing_prompt ''refund please''
                 (conversation_context (technical_history @ [HumanMessage ''refund please''])))]])"
proof -
  have agent: "current_active_agent ascii_methods
                 (technical_history @ [HumanMessage ''refund please''])
               = Some ''technical_agent''"
    by code_simp
  have kw: "any_keyword_in billing_keywords (str_lower ascii_methods ''refund please'')"
    by code_simp
  have parsed: "parse_agent_choice ascii_methods ''billing_agent|The customer asks for a refund.''
                = (''billing_agent'', ''The customer asks for a refund.'')"
    by code_simp
  have handoff: "handoff_text ascii_methods ''billing_agent'' ''The customer asks for a refund.''
                 = ''I'm routing your request to our Billing Agent team. The customer asks for a refund.''"
    by code_simp
  show ?thesis
    using supervisor_node_keyword_switch
            [of "\<lparr>messages = technical_history @ [HumanMessage ''refund please''],
                  active_agent = None, ticket_category = None, customer_id = None,
                  next_agent = None\<rparr>"
                "''refund please''" ascii_methods "''technical_agent''"
                env_with_key "ChatOpenAI ''gpt-4o-mini'' 0" canned_billing]
          agent kw get_llm_env_with_key
    by (simp add: canned_billing_def parsed handoff)
qed

text \<open>
  C5. On the classification path (the latest message is a user message, and no specialist
  is active or a keyword matches; credential configured), when the answer of the
  classification call contains no \<open>|\<close>, the supervisor routes to \<open>general_agent\<close>
  with the reason "Unable to categorize, routing to general support", and appends the
  handoff announcement built from these two.
\<close>

theorem supervisor_node_missing_delimiter:
  assumes "messages state \<noteq> []"
      and "last (messages state) = HumanMessage text"
      and "current_active_agent U (messages state) = None
           \<or> any_keyword_in billing_keywords (str_lower U text)
           \<or> any_keyword_in technical_keywords (str_lower U text)
           \<or> any_keyword_in general_keywords (str_lower U text)"
      and "get_llm env = Inr llm"
      and "\<not> str_in ''|''
             (complete llm [HumanMessage (routing_prompt text (conversation_context (messages state)))])"
  shows "supervisor_node U env complete state =
           Inr (\<lparr>messages = messages state @
                   [AIMessage (handoff_text U ''general_agent''
                      ''Unable to categorize, routing to general support'')],
                 active_agent = Some ''general_agent'', ticket_category = None,
                 customer_id = None, next_agent = Some ''general_agent''\<rparr>,
                [[HumanMessage (routing_prompt text (conversation_context (messages state)))]])"
  using supervisor_node_classifies
          [of state "text" U env llm complete "''general_agent''" unable_to_categorize]
        assms(1,2,3,4) parse_agent_choice_no_delimiter [OF assms(5), of U]
  by (simp add: unable_to_categorize_def del: str_in.simps)

text \<open>An answer without delimiter to a first message.\<close>

theorem supervisor_node_missing_delimiter_witness:
  "supervisor_node ascii_methods env_with_key canned_ok
     \<lparr>messages = [HumanMessage ''Hello there''],
      active_agent = None, ticket_category = None, customer_id = None, next_agent = None\<rparr>
   = Inr (\<lparr>messages =
             [HumanMessage ''Hello there'',
              AIMessage ''I'm routing your request to our General Agent team. Unable to categorize, routing to general support''],
           active_agent = Some ''general_agent'', ticket_category = None,
           customer_id = None, next_agent = Some ''general_agent''\<rparr>,
          [[HumanMessage (routing_prompt ''Hello there'' [])]])"
proof -
  have agent: "current_active_agent ascii_methods [HumanMessage ''Hello there''] = None"
    by code_simp
  have ctx: "conversation_context [HumanMessage ''Hello there''] = []"
    by (simp add: conversation_context_def)
  have nodelim: "\<not> str_in ''|'' ''ok''"
    by code_simp
  have handoff: "handoff_text ascii_methods ''general_agent''
                   ''Unable to categorize, routing to general support''
                 = ''I'm routing your request to our General Agent team. Unable to categorize, routing to general support''"
    by code_simp
  show ?thesis
    using supervisor_node_missing_delimiter
            [of "\<lparr>messages = [HumanMessage ''Hello there''],
                  active_agent = None, ticket_category = None, customer_id = None,
                  next_agent = None\<rparr>"
                "''Hello there''" ascii_methods
                env_with_key "ChatOpenAI ''gpt-4o-mini'' 0" canned_ok]
          agent get_llm_env_with_key nodelim
    by (simp add: ctx canned_ok_def handoff del: str_in.simps)
qed



end
